theory Spec2Isabelle
  imports Main
begin

section \<open>Data model of UDSFrame.py\<close>

subsection \<open>Data classes\<close>

text \<open>
  \<^verbatim>\<open>UDSCANPhyIDs\<close> is a dataclass of three strings, the last one defaulting to
  the empty string.
\<close>

record UDSCANPhyIDs =
  ST2ECU :: string
  ECU2ST :: string
  ECUName :: string

text \<open>
  \<^verbatim>\<open>UDSCANFncIDs\<close> is a dataclass with a list of strings and an integer field
  declared as \<^verbatim>\<open>FncIDNum: int = 0\<close>. The class has no \<^verbatim>\<open>__post_init__\<close>, so the
  generated constructor stores whatever it is given: the list, and either the
  count passed by the caller or the default 0.
\<close>

record UDSCANFncIDs =
  FncIDs :: "string list"
  FncIDNum :: int

text \<open>
  The generated \<^verbatim>\<open>__init__(self, FncIDs, FncIDNum=0)\<close>. The optional second
  argument is \<open>None\<close> when the caller leaves it out.
\<close>

definition UDSCANFncIDs_init :: "string list \<Rightarrow> int option \<Rightarrow> UDSCANFncIDs" where
  "UDSCANFncIDs_init fncids num =
     \<lparr>FncIDs = fncids, FncIDNum = (case num of None \<Rightarrow> 0 | Some n \<Rightarrow> n)\<rparr>"

text \<open>
  \<^verbatim>\<open>UDSCANFncIDs.append\<close>: the identifier goes to the end of the list, then the
  count is overwritten by the length of the list. The method has no branch and
  raises nothing; the object after the call is the value returned here.
\<close>

definition append :: "UDSCANFncIDs \<Rightarrow> string \<Rightarrow> UDSCANFncIDs" where
  "append self fncid =
     (let ids = FncIDs self @ [fncid]
      in self\<lparr>FncIDs := ids, FncIDNum := int (length ids)\<rparr>)"

subsection \<open>Enumerations\<close>

text \<open>
  The members of \<^verbatim>\<open>SID\<close>, in the order the class body declares them. The
  member \<^verbatim>\<open>SID.Other\<close> keeps its name; the member \<^verbatim>\<open>SType.Other\<close> below is
  written \<open>Other_SType\<close>.
\<close>

datatype SID =
    DiagSCntr | ECUReset | SecAccess | ComCntr | TsPresent
  | AccTimParam | SecDatTrans | CntrDTCSet | ResOnEve | LinkCntr
  | RDatByID | RMemByAddr | RScDatByID | RDatByPID | DynDefDID
  | WDatByID | WMemByAddr | ClrDiagInfo | RDTCInfo | IOCntrByID
  | RoutineCntr | ReqDnL | ReqUpL | TransDat | ReqTransExit
  | ReqFileTrans | Other

text \<open>The \<^verbatim>\<open>.value\<close> of each member.\<close>

fun SID_value :: "SID \<Rightarrow> int" where
  "SID_value DiagSCntr = 0x10"
| "SID_value ECUReset = 0x11"
| "SID_value SecAccess = 0x27"
| "SID_value ComCntr = 0x28"
| "SID_value TsPresent = 0x3E"
| "SID_value AccTimParam = 0x83"
| "SID_value SecDatTrans = 0x84"
| "SID_value CntrDTCSet = 0x85"
| "SID_value ResOnEve = 0x86"
| "SID_value LinkCntr = 0x87"
| "SID_value RDatByID = 0x22"
| "SID_value RMemByAddr = 0x23"
| "SID_value RScDatByID = 0x24"
| "SID_value RDatByPID = 0x2A"
| "SID_value DynDefDID = 0x2C"
| "SID_value WDatByID = 0x2E"
| "SID_value WMemByAddr = 0x3D"
| "SID_value ClrDiagInfo = 0x14"
| "SID_value RDTCInfo = 0x19"
| "SID_value IOCntrByID = 0x2F"
| "SID_value RoutineCntr = 0x31"
| "SID_value ReqDnL = 0x34"
| "SID_value ReqUpL = 0x35"
| "SID_value TransDat = 0x36"
| "SID_value ReqTransExit = 0x37"
| "SID_value ReqFileTrans = 0x38"
| "SID_value Other = 0xFF"

text \<open>
  Iterating over an \<^verbatim>\<open>Enum\<close> class visits its members in definition order.
  No two members share a value, so none of them is an alias and all 27 are
  visited.
\<close>

definition SID_members :: "SID list" where
  "SID_members =
     [DiagSCntr, ECUReset, SecAccess, ComCntr, TsPresent,
      AccTimParam, SecDatTrans, CntrDTCSet, ResOnEve, LinkCntr,
      RDatByID, RMemByAddr, RScDatByID, RDatByPID, DynDefDID,
      WDatByID, WMemByAddr, ClrDiagInfo, RDTCInfo, IOCntrByID,
      RoutineCntr, ReqDnL, ReqUpL, TransDat, ReqTransExit,
      ReqFileTrans, Other]"

text \<open>
  The loop of \<^verbatim>\<open>SID.get_sid\<close>: \<open>ret\<close> is overwritten by every member whose
  value equals \<open>sid\<close>; the loop has no \<^verbatim>\<open>break\<close>, so the last match stays.
\<close>

fun get_sid_loop :: "int \<Rightarrow> SID list \<Rightarrow> SID \<Rightarrow> SID" where
  "get_sid_loop sid [] ret = ret"
| "get_sid_loop sid (m # ms) ret =
     get_sid_loop sid ms (if SID_value m = sid then m else ret)"

definition get_sid :: "int \<Rightarrow> SID" where
  "get_sid sid = get_sid_loop sid SID_members Other"

datatype SType = UDSService | UDSPosRes | UDSNegRes | OBDService | Other_SType

datatype PDUType = SF | FF | CF | FC

subsection \<open>Service classification\<close>

text \<open>
  The module-level function \<^verbatim>\<open>__identify_service\<close>, branch by branch. The
  chained comparison \<^verbatim>\<open>0x3F < sid < 0x7F\<close> is the conjunction of its two halves.
\<close>

definition identify_service :: "int \<Rightarrow> SID \<times> SType" where
  "identify_service sid =
     (if sid < 0x10 then (Other, OBDService)
      else if sid < 0x3F then (get_sid sid, UDSService)
      else if 0x3F < sid \<and> sid < 0x7F then (get_sid (sid - 0x40), UDSPosRes)
      else if sid = 0x7F then (Other, UDSNegRes)
      else if 0x82 < sid \<and> sid < 0x89 then (get_sid sid, UDSService)
      else if 0xC2 < sid \<and> sid < 0xC9 then (get_sid (sid - 0x40), UDSPosRes)
      else (Other, Other_SType))"

section \<open>Properties\<close>

subsection \<open>The lookup loop\<close>

lemma get_sid_loop_no_match:
  "\<forall>m \<in> set ms. SID_value m \<noteq> sid \<Longrightarrow> get_sid_loop sid ms ret = ret"
  by (induction ms arbitrary: ret) simp_all

lemma get_sid_loop_match:
  "distinct (map SID_value ms) \<Longrightarrow> s \<in> set ms \<Longrightarrow>
   get_sid_loop (SID_value s) ms ret = s"
proof (induction ms arbitrary: ret)
  case Nil
  then show ?case by simp
next
  case (Cons m ms)
  show ?case
  proof (cases "m = s")
    case True
    with Cons.prems(1) have "SID_value s \<notin> SID_value ` set ms"
      by simp
    then have "\<forall>k \<in> set ms. SID_value k \<noteq> SID_value s"
      by (metis imageI)
    then show ?thesis
      using True by (simp add: get_sid_loop_no_match)
  next
    case False
    with Cons.prems have "s \<in> set ms" and "distinct (map SID_value ms)"
      by simp_all
    then show ?thesis
      using Cons.IH by simp
  qed
qed

lemma SID_members_all: "s \<in> set SID_members"
  by (cases s) (simp_all add: SID_members_def)

lemma SID_values_distinct: "distinct (map SID_value SID_members)"
  by (simp add: SID_members_def)

lemma get_sid_of_value: "get_sid (SID_value s) = s"
  unfolding get_sid_def
  by (rule get_sid_loop_match [OF SID_values_distinct SID_members_all])

lemma get_sid_unknown: "(\<forall>s. SID_value s \<noteq> v) \<Longrightarrow> get_sid v = Other"
  unfolding get_sid_def
  by (rule get_sid_loop_no_match) simp

lemma SID_value_inj: "SID_value s = SID_value t \<Longrightarrow> s = t"
  by (metis get_sid_of_value)

subsection \<open>Lookup by value\<close>

text \<open>
  Claim C10. \<^verbatim>\<open>SID.get_sid\<close> is total: the model is a structural recursion over
  the 27 members with no failing branch. For every integer, when exactly one
  member has that value the function returns that member, in every other case
  it returns \<^verbatim>\<open>SID.Other\<close>; in particular it returns \<^verbatim>\<open>SID.Other\<close> at 0xFF.
\<close>

theorem get_sid_exact_match_or_Other:
  "(\<forall>s. SID_value s = v \<and> (\<forall>t. SID_value t = v \<longrightarrow> t = s) \<longrightarrow> get_sid v = s) \<and>
   (\<not> (\<exists>!s. SID_value s = v) \<longrightarrow> get_sid v = Other) \<and>
   get_sid 0xFF = Other"
proof -
  have a: "get_sid v = s" if "SID_value s = v" for s
    using that get_sid_of_value by blast
  have b: "get_sid v = Other" if "\<not> (\<exists>!s. SID_value s = v)"
  proof -
    from that have "\<forall>s. SID_value s \<noteq> v"
      using SID_value_inj by blast
    then show ?thesis by (rule get_sid_unknown)
  qed
  have c: "get_sid 0xFF = Other"
    using get_sid_of_value [of Other] by simp
  show ?thesis using a b c by blast
qed

theorem get_sid_exact_match_or_Other_witness:
  "get_sid 0x22 = RDatByID \<and> get_sid 0 = Other"
proof -
  have "\<forall>t. SID_value t = 0x22 \<longrightarrow> t = RDatByID"
  proof (intro allI impI)
    fix t assume "SID_value t = 0x22"
    then show "t = RDatByID" by (cases t) simp_all
  qed
  moreover have "\<not> (\<exists>!s. SID_value s = 0)"
  proof -
    have "SID_value s \<noteq> 0" for s by (cases s) simp_all
    then show ?thesis by blast
  qed
  ultimately show ?thesis
    using get_sid_exact_match_or_Other [of "0x22"]
      get_sid_exact_match_or_Other [of 0] by simp
qed

subsection \<open>Service classification\<close>

text \<open>
  Claim C1, as stated: the input 0x40 is classified with category Other and
  identifier Other. The third branch of \<^verbatim>\<open>__identify_service\<close> tests
  \<^verbatim>\<open>0x3F < sid < 0x7F\<close>, which 0x40 satisfies, so the category returned is not
  \<^verbatim>\<open>SType.Other\<close>.
\<close>

theorem identify_service_0x40_not_Other:
  "identify_service 0x40 \<noteq> (Other, Other_SType)"
  by (simp add: identify_service_def)

text \<open>
  Claim C1, amended: the input 0x40 is classified with category
  \<^verbatim>\<open>UDSPosRes\<close> and identifier \<^verbatim>\<open>SID.Other\<close>. The positive-response range of the
  code is \<^verbatim>\<open>0x3F < sid < 0x7F\<close>, which contains 0x40, and the lookup of
  0x40 - 0x40 = 0 matches no member.
\<close>

theorem identify_service_0x40_PosRes:
  "identify_service 0x40 = (Other, UDSPosRes)"
  by (simp add: identify_service_def get_sid_def SID_members_def)

text \<open>
  Claim C3. For every value in \<open>0x10 \<le> v < 0x3F\<close> and every value in
  \<open>0x82 < v < 0x89\<close> the category is \<^verbatim>\<open>UDSService\<close> and the identifier is the
  result of the lookup of \<open>v\<close>: the member whose value is \<open>v\<close> when there is one,
  \<^verbatim>\<open>SID.Other\<close> when there is none. The values 0x10 and 0x11 give
  \<^verbatim>\<open>DiagSCntr\<close> and \<^verbatim>\<open>ECUReset\<close>.
\<close>

theorem identify_service_request_ranges:
  "((0x10 \<le> v \<and> v < 0x3F) \<or> (0x82 < v \<and> v < 0x89) \<longrightarrow>
      identify_service v = (get_sid v, UDSService) \<and>
      (\<forall>s. SID_value s = v \<longrightarrow> fst (identify_service v) = s) \<and>
      ((\<forall>s. SID_value s \<noteq> v) \<longrightarrow> fst (identify_service v) = Other)) \<and>
   identify_service 0x10 = (DiagSCntr, UDSService) \<and>
   identify_service 0x11 = (ECUReset, UDSService)"
proof (intro conjI impI allI)
  assume r: "(0x10 \<le> v \<and> v < 0x3F) \<or> (0x82 < v \<and> v < 0x89)"
  then show e: "identify_service v = (get_sid v, UDSService)"
    by (auto simp: identify_service_def)
  show "fst (identify_service v) = s" if "SID_value s = v" for s
    using e that get_sid_of_value [of s] by simp
  show "fst (identify_service v) = Other" if "\<forall>s. SID_value s \<noteq> v"
    using e get_sid_unknown [OF that] by simp
next
  have "get_sid 0x10 = DiagSCntr"
    using get_sid_of_value [of DiagSCntr] by simp
  then show "identify_service 0x10 = (DiagSCntr, UDSService)"
    by (simp add: identify_service_def)
next
  have "get_sid 0x11 = ECUReset"
    using get_sid_of_value [of ECUReset] by simp
  then show "identify_service 0x11 = (ECUReset, UDSService)"
    by (simp add: identify_service_def)
qed

theorem identify_service_request_ranges_witness:
  "identify_service 0x22 = (RDatByID, UDSService) \<and>
   identify_service 0x30 = (Other, UDSService) \<and>
   identify_service 0x85 = (CntrDTCSet, UDSService)"
proof -
  have none: "\<forall>s. SID_value s \<noteq> 0x30"
  proof
    fix s show "SID_value s \<noteq> 0x30" by (cases s) simp_all
  qed
  have r1: "(0x10 \<le> (0x22::int) \<and> (0x22::int) < 0x3F) \<or>
            (0x82 < (0x22::int) \<and> (0x22::int) < 0x89)"
    and r2: "(0x10 \<le> (0x30::int) \<and> (0x30::int) < 0x3F) \<or>
             (0x82 < (0x30::int) \<and> (0x30::int) < 0x89)"
    and r3: "(0x10 \<le> (0x85::int) \<and> (0x85::int) < 0x3F) \<or>
             (0x82 < (0x85::int) \<and> (0x85::int) < 0x89)"
    by simp_all
  have v1: "SID_value RDatByID = 0x22" and v3: "SID_value CntrDTCSet = 0x85"
    by simp_all
  have "snd (identify_service 0x22) = UDSService"
    and "fst (identify_service 0x22) = RDatByID"
    using identify_service_request_ranges [of "0x22"] r1 v1 by (simp, blast)
  then have x: "identify_service 0x22 = (RDatByID, UDSService)"
    by (simp add: prod_eq_iff)
  have "snd (identify_service 0x30) = UDSService"
    and "fst (identify_service 0x30) = Other"
    using identify_service_request_ranges [of "0x30"] r2 none by (simp, blast)
  then have y: "identify_service 0x30 = (Other, UDSService)"
    by (simp add: prod_eq_iff)
  have "snd (identify_service 0x85) = UDSService"
    and "fst (identify_service 0x85) = CntrDTCSet"
    using identify_service_request_ranges [of "0x85"] r3 v3 by (simp, blast)
  then have z: "identify_service 0x85 = (CntrDTCSet, UDSService)"
    by (simp add: prod_eq_iff)
  from x y z show ?thesis by simp
qed

text \<open>
  Claim C4. For every value in \<open>0x40 < v < 0x7F\<close> and every value in
  \<open>0xC2 < v < 0xC9\<close> the category is \<^verbatim>\<open>UDSPosRes\<close> and the identifier is the
  result of the lookup of \<open>v - 0x40\<close>: the member with that value when there is
  one, \<^verbatim>\<open>SID.Other\<close> when there is none.
\<close>

theorem identify_service_positive_ranges:
  "(0x40 < v \<and> v < 0x7F) \<or> (0xC2 < v \<and> v < 0xC9) \<longrightarrow>
      identify_service v = (get_sid (v - 0x40), UDSPosRes) \<and>
      (\<forall>s. SID_value s = v - 0x40 \<longrightarrow> fst (identify_service v) = s) \<and>
      ((\<forall>s. SID_value s \<noteq> v - 0x40) \<longrightarrow> fst (identify_service v) = Other)"
proof (intro conjI impI allI)
  assume r: "(0x40 < v \<and> v < 0x7F) \<or> (0xC2 < v \<and> v < 0xC9)"
  then show e: "identify_service v = (get_sid (v - 0x40), UDSPosRes)"
    by (auto simp: identify_service_def)
  show "fst (identify_service v) = s" if "SID_value s = v - 0x40" for s
    using e get_sid_of_value [of s] by (simp add: that)
  show "fst (identify_service v) = Other" if "\<forall>s. SID_value s \<noteq> v - 0x40"
    using e get_sid_unknown [OF that] by simp
qed

theorem identify_service_positive_ranges_witness:
  "identify_service 0x62 = (RDatByID, UDSPosRes) \<and>
   identify_service 0x41 = (Other, UDSPosRes) \<and>
   identify_service 0xC5 = (CntrDTCSet, UDSPosRes)"
proof -
  have none: "\<forall>s. SID_value s \<noteq> 0x41 - 0x40"
  proof
    fix s show "SID_value s \<noteq> 0x41 - 0x40" by (cases s) simp_all
  qed
  have r1: "(0x40 < (0x62::int) \<and> (0x62::int) < 0x7F) \<or>
            (0xC2 < (0x62::int) \<and> (0x62::int) < 0xC9)"
    and r2: "(0x40 < (0x41::int) \<and> (0x41::int) < 0x7F) \<or>
             (0xC2 < (0x41::int) \<and> (0x41::int) < 0xC9)"
    and r3: "(0x40 < (0xC5::int) \<and> (0xC5::int) < 0x7F) \<or>
             (0xC2 < (0xC5::int) \<and> (0xC5::int) < 0xC9)"
    by simp_all
  have v1: "SID_value RDatByID = 0x62 - 0x40"
    and v3: "SID_value CntrDTCSet = 0xC5 - 0x40"
    by simp_all
  have "snd (identify_service 0x62) = UDSPosRes"
    and "fst (identify_service 0x62) = RDatByID"
    using identify_service_positive_ranges [of "0x62"] r1 v1 by (simp, blast)
  then have x: "identify_service 0x62 = (RDatByID, UDSPosRes)"
    by (simp add: prod_eq_iff)
  have "snd (identify_service 0x41) = UDSPosRes"
    and "fst (identify_service 0x41) = Other"
    using identify_service_positive_ranges [of "0x41"] r2 none by (simp, blast)
  then have y: "identify_service 0x41 = (Other, UDSPosRes)"
    by (simp add: prod_eq_iff)
  have "snd (identify_service 0xC5) = UDSPosRes"
    and "fst (identify_service 0xC5) = CntrDTCSet"
    using identify_service_positive_ranges [of "0xC5"] r3 v3 by (simp, blast)
  then have z: "identify_service 0xC5 = (CntrDTCSet, UDSPosRes)"
    by (simp add: prod_eq_iff)
  from x y z show ?thesis by simp
qed

text \<open>
  Claim C5. Each of the boundary values 0x3F, 0x82, 0x89, 0xC2 and 0xC9 is
  outside every range tested by the branches and reaches the final
  \<^verbatim>\<open>return\<close>: category Other, identifier Other.
\<close>

theorem identify_service_boundaries:
  "identify_service 0x3F = (Other, Other_SType) \<and>
   identify_service 0x82 = (Other, Other_SType) \<and>
   identify_service 0x89 = (Other, Other_SType) \<and>
   identify_service 0xC2 = (Other, Other_SType) \<and>
   identify_service 0xC9 = (Other, Other_SType)"
  by (simp add: identify_service_def)

text \<open>
  Claim C6. The input 0x7F is classified with category \<^verbatim>\<open>UDSNegRes\<close> and
  identifier \<^verbatim>\<open>SID.Other\<close>.
\<close>

theorem identify_service_negative_response:
  "identify_service 0x7F = (Other, UDSNegRes)"
  by (simp add: identify_service_def)

text \<open>
  Claim C7. Every value below 0x10, the negative integers included, is
  classified with category \<^verbatim>\<open>OBDService\<close> and identifier \<^verbatim>\<open>SID.Other\<close>; the
  first branch returns before any lookup.
\<close>

theorem identify_service_obd:
  "v < 0x10 \<Longrightarrow> identify_service v = (Other, OBDService)"
  by (simp add: identify_service_def)

theorem identify_service_obd_witness:
  "identify_service 0x01 = (Other, OBDService) \<and>
   identify_service (- 1) = (Other, OBDService)"
  using identify_service_obd [of "0x01"] identify_service_obd [of "- 1"]
  by simp

subsection \<open>Functional address groups\<close>

text \<open>
  Claim C8. For every group and every identifier, \<^verbatim>\<open>append\<close> puts the identifier
  at the end of the list and sets the count to the length of the new list, one
  more than the length before. The model has no failing branch, as the method
  has none. An identifier already in the list is added again: its number of
  occurrences grows by one, to at least two.
\<close>

theorem append_extends_and_counts:
  "FncIDs (append g x) = FncIDs g @ [x] \<and>
   FncIDNum (append g x) = int (length (FncIDs (append g x))) \<and>
   FncIDNum (append g x) = int (length (FncIDs g)) + 1 \<and>
   (x \<in> set (FncIDs g) \<longrightarrow>
      count_list (FncIDs (append g x)) x = count_list (FncIDs g) x + 1 \<and>
      2 \<le> count_list (FncIDs (append g x)) x)"
proof -
  have "1 \<le> count_list (FncIDs g) x" if "x \<in> set (FncIDs g)"
    using that count_list_0_iff [of "FncIDs g" x] by (simp add: Suc_le_eq)
  then show ?thesis
    by (auto simp: append_def Let_def)
qed

theorem append_extends_and_counts_witness:
  "FncIDs (append (UDSCANFncIDs_init [''7DF''] None) ''7DF'') = [''7DF'', ''7DF''] \<and>
   FncIDNum (append (UDSCANFncIDs_init [''7DF''] None) ''7DF'') = 2 \<and>
   count_list (FncIDs (append (UDSCANFncIDs_init [''7DF''] None) ''7DF'')) ''7DF'' = 2"
  using append_extends_and_counts [of "UDSCANFncIDs_init [''7DF''] None" "''7DF''"]
  by (simp add: UDSCANFncIDs_init_def)

text \<open>
  Claim C2 says that the count equals the length of the list for every group
  that a public construction produces. The class docstring describes
  \<^verbatim>\<open>FncIDNum\<close> as the size of \<^verbatim>\<open>FncIDs\<close>, and \<^verbatim>\<open>append\<close> keeps it so, but the
  constructor does not: \<^verbatim>\<open>UDSCANFncIDs(["7DF"])\<close> holds a list of length 1 and
  the default count 0.
\<close>

theorem UDSCANFncIDs_init_count_not_length:
  "FncIDNum (UDSCANFncIDs_init [''7DF''] None) = 0 \<and>
   length (FncIDs (UDSCANFncIDs_init [''7DF''] None)) = 1"
  by (simp add: UDSCANFncIDs_init_def)

subsection \<open>The frame class\<close>

text \<open>
  The class \<^verbatim>\<open>UDSFrame\<close> consists of four attribute annotations (\<^verbatim>\<open>type\<close>,
  \<^verbatim>\<open>DL\<close>, \<^verbatim>\<open>SF\<close>, \<^verbatim>\<open>DID\<close>) and \<^verbatim>\<open>pass\<close>. The module defines no function that
  segments a payload into frames or reassembles frames into a payload, so
  there is no operation on frames to embed here.
\<close>

end
